theory Spec2Isabelle
  imports Main "HOL-Library.Word" "HOL-Library.Signed_Division"
begin

unbundle bit_operations_syntax

section \<open>JavaScript values, errors and numbers\<close>

text \<open>
  The wrapper (lib/decoder.js and lib/encoder.js) is JavaScript around an Emscripten build of
  CELT 0.7.1. Every \<^verbatim>\<open>throw\<close> of the wrapper, and every exception of a JavaScript builtin
  the wrapper calls, is a value of type \<open>error\<close>; the constructor is the JavaScript error class
  and the argument the message. Numeric options and pointers are JavaScript numbers; the model
  takes the integral ones, as \<open>int\<close>.
\<close>

datatype error = Error string | TypeError string | ReferenceError string | RangeError string

type_synonym byte = "8 word"

definition to_int32 :: "int \<Rightarrow> int" where
  \<comment> \<open>ToInt32: the coercion behind \<^verbatim>\<open>x | 0\<close> and the operands of \<^verbatim>\<open>>>\<close>\<close>
  "to_int32 x = (x + 2 ^ 31) mod 2 ^ 32 - 2 ^ 31"

definition js_sar :: "int \<Rightarrow> nat \<Rightarrow> int" where
  \<comment> \<open>\<^verbatim>\<open>x >> n\<close>\<close>
  "js_sar x n = to_int32 x div 2 ^ n"

definition js_rem :: "int \<Rightarrow> int \<Rightarrow> int" where
  \<comment> \<open>\<^verbatim>\<open>a % b\<close>: the remainder takes the sign of the dividend\<close>
  "js_rem a b = a smod b"

fun references :: "string \<Rightarrow> string \<Rightarrow> bool" where
  \<comment> \<open>the message contains the word, as the tests' \<^verbatim>\<open>to.throw(/channel/)\<close> asks\<close>
  "references pat [] = (pat = [])"
| "references pat (c # cs) = (take (length pat) (c # cs) = pat \<or> references pat cs)"

section \<open>The engine: an Emscripten module instance\<close>

text \<open>
  The compiled library (build/libcelt7.js) is not part of the wrapper: it is a parameter of the
  model. An instance has a byte heap (\<^verbatim>\<open>HEAPU8\<close> and the other views share one buffer,
  little-endian), a private state \<open>'e\<close>, and exported functions. \<open>native\<close> runs one exported
  function on the heap and the private state and returns its result; \<open>strerror\<close> is
  \<^verbatim>\<open>Pointer_stringify(_celt_strerror(id))\<close>, a lookup in a static table of messages.
  The field \<open>calls\<close> records every exported function the wrapper has called, in order.
\<close>

datatype call =
    malloc int
  | free int
  | celt_mode_create int int int
  | celt_mode_destroy int
  | celt_encoder_create int int int
  | celt_encoder_destroy int
  | celt_encode int int int int int
  | celt_encode_float int int int int int
  | celt_decoder_create int int int
  | celt_decoder_destroy int
  | celt_decode int int int int
  | celt_decode_float int int int int

record 'e lib =
  native :: "call \<Rightarrow> byte list \<times> 'e \<Rightarrow> int \<times> byte list \<times> 'e"
  strerror :: "int \<Rightarrow> string"

record 'e world =
  HEAPU8 :: "byte list"
  engine :: 'e
  calls :: "call list"

definition invoke :: "'e lib \<Rightarrow> call \<Rightarrow> 'e world \<Rightarrow> int \<times> 'e world" where
  "invoke L c w =
     (case native L c (HEAPU8 w, engine w) of
        (r, h, e) \<Rightarrow> (r, \<lparr>HEAPU8 = h, engine = e, calls = calls w @ [c]\<rparr>))"

subsection \<open>Typed views of the heap\<close>

fun le_uint :: "byte list \<Rightarrow> int" where
  "le_uint [] = 0"
| "le_uint (b # bs) = uint b + 256 * le_uint bs"

definition HEAPU32_get :: "byte list \<Rightarrow> int \<Rightarrow> int option" where
  \<comment> \<open>\<^verbatim>\<open>HEAPU32[i]\<close>; an index outside the view reads \<^verbatim>\<open>undefined\<close>\<close>
  "HEAPU32_get h i =
     (if 0 \<le> i \<and> 4 * i + 4 \<le> int (length h)
      then Some (le_uint (take 4 (drop (nat (4 * i)) h))) else None)"

definition view_set :: "nat \<Rightarrow> byte list \<Rightarrow> int \<Rightarrow> byte list \<Rightarrow> error + byte list" where
  \<comment> \<open>\<^verbatim>\<open>view.set(src, off)\<close> on a view of \<open>k\<close>-byte elements, \<open>src\<close> given by its bytes\<close>
  "view_set k src off h =
     (if off < 0 \<or> int (length h div k) < int (length src div k) + off
      then Inl (RangeError ''offset is out of bounds'')
      else Inr (take (k * nat off) h @ src @ drop (k * nat off + length src) h))"

definition HEAPU8_slice :: "byte list \<Rightarrow> int \<Rightarrow> int \<Rightarrow> byte list" where
  \<comment> \<open>\<^verbatim>\<open>HEAPU8.slice(a, b)\<close>: negative indices count from the end, both are clamped\<close>
  "HEAPU8_slice h a b =
     (let n = int (length h);
          k = (if a < 0 then max (n + a) 0 else min a n);
          final = (if b < 0 then max (n + b) 0 else min b n)
      in take (nat (final - k)) (drop (nat k) h))"

definition stringifyError :: "'e lib \<Rightarrow> int option \<Rightarrow> string" where
  \<comment> \<open>lib/utils.js, which asks the shared instance: the table of messages is the same in every
      instance. The argument of the compiled function is coerced with \<^verbatim>\<open>| 0\<close>.\<close>
  "stringifyError L errorId =
     strerror L (case errorId of None \<Rightarrow> 0 | Some v \<Rightarrow> to_int32 v)"

section \<open>Options\<close>

text \<open>
  The constructors take an optional object; \<open>None\<close> is a property that is absent or
  undefined. \<open>extend_opts\<close> is \<^verbatim>\<open>extend({rate: 48000, frameSize: 256, channels: 1, unsafe: false}, opts)\<close>:
  every property that is defined replaces the default, and a property without a default
  (\<open>application\<close>, which the encoder stores and never reads) is carried over.
\<close>

record opts =
  rate :: "int option"
  frameSize :: "int option"
  channels :: "int option"
  unsafe :: "bool option"
  application :: "int option"

record options =
  opt_rate :: int
  opt_frameSize :: int
  opt_channels :: int
  opt_unsafe :: bool
  opt_application :: "int option"

definition js_extend :: "'a \<Rightarrow> 'a option \<Rightarrow> 'a" where
  "js_extend d v = (case v of None \<Rightarrow> d | Some x \<Rightarrow> x)"

definition extend_opts :: "opts \<Rightarrow> options" where
  "extend_opts opt =
     \<lparr>opt_rate = js_extend 48000 (rate opt),
      opt_frameSize = js_extend 256 (frameSize opt),
      opt_channels = js_extend 1 (channels opt),
      opt_unsafe = js_extend False (unsafe opt),
      opt_application = application opt\<rparr>"

section \<open>Encoder\<close>

record encoder =
  enc_rate :: int
  enc_frameSize :: int
  enc_channels :: int
  enc_application :: "int option"
  enc_unsafe :: bool
  enc_mode :: int
  enc_p :: int

definition Encoder_error :: "'e lib \<Rightarrow> int \<Rightarrow> 'e world \<Rightarrow> error" where
  "Encoder_error L p_err w = Error (stringifyError L (HEAPU32_get (HEAPU8 w) (js_sar p_err 2)))"

definition Encoder :: "'e lib \<Rightarrow> opts \<Rightarrow> 'e world \<Rightarrow> (error + encoder) \<times> 'e world" where
  \<comment> \<open>\<open>w\<close> is the instance \<^verbatim>\<open>this._lib\<close> refers to: the shared one when \<open>unsafe\<close>, a new one otherwise\<close>
  "Encoder L opts w =
     (let opts = extend_opts opts
      in if opt_channels opts < 1 then (Inl (Error ''channels must be greater than 0''), w)
         else if opt_rate opts < 32000 \<or> opt_rate opts > 96000
         then (Inl (Error ''rate must be in range 32000 - 96000''), w)
         else if js_rem (opt_rate opts) 2 \<noteq> 0 then (Inl (Error ''rate must be even''), w)
         else
           case invoke L (malloc 4) w of (p_err, w1) \<Rightarrow>
           case invoke L (celt_mode_create (opt_rate opts) (opt_frameSize opts) p_err) w1 of
             (m, w2) \<Rightarrow>
             if m = 0 then (Inl (Encoder_error L p_err w2), snd (invoke L (free p_err) w2))
             else
               case invoke L (celt_encoder_create m (opt_channels opts) p_err) w2 of
                 (p, w3) \<Rightarrow>
                 if p = 0 then
                   (let w4 = snd (invoke L (celt_mode_destroy m) w3)
                    in (Inl (Encoder_error L p_err w4), snd (invoke L (free p_err) w4)))
                 else
                   (Inr \<lparr>enc_rate = opt_rate opts, enc_frameSize = opt_frameSize opts,
                         enc_channels = opt_channels opts,
                         enc_application = opt_application opts, enc_unsafe = opt_unsafe opts,
                         enc_mode = m, enc_p = p\<rparr>,
                    snd (invoke L (free p_err) w3)))"

definition Encoder_destroy :: "'e lib \<Rightarrow> encoder \<Rightarrow> 'e world \<Rightarrow> (error + unit) \<times> 'e world" where
  "Encoder_destroy L s w =
     (if enc_unsafe s then
        (let w1 = snd (invoke L (celt_encoder_destroy (enc_p s)) w);
             w2 = snd (invoke L (celt_mode_destroy (enc_mode s)) w1)
         in (Inr (), w2))
      else (Inr (), w))"

subsection \<open>Typed arrays\<close>

text \<open>
  An \<^verbatim>\<open>Int16Array\<close> is the list of its elements; a \<^verbatim>\<open>Float32Array\<close> is the list of the
  IEEE-754 bit patterns of its elements, which is all the wrapper moves. The \<open>pcm\<close> argument of
  \<^verbatim>\<open>encode\<close> is either of them or another value, given by its \<^verbatim>\<open>length\<close> property when that
  is a number (a string, an array, a Buffer) and \<open>None\<close> when it is undefined (an ArrayBuffer).
\<close>

datatype typed_array = Float32Array "32 word list" | Int16Array "16 word list"

datatype pcm = Samples typed_array | OtherValue "int option"

fun pcm_length :: "pcm \<Rightarrow> int option" where
  "pcm_length (Samples (Float32Array xs)) = Some (int (length xs))"
| "pcm_length (Samples (Int16Array xs)) = Some (int (length xs))"
| "pcm_length (OtherValue n) = n"

definition bytes_of_int16 :: "16 word list \<Rightarrow> byte list" where
  "bytes_of_int16 xs = concat (map (\<lambda>x. [ucast x, ucast (drop_bit 8 x)]) xs)"

definition bytes_of_float32 :: "32 word list \<Rightarrow> byte list" where
  "bytes_of_float32 xs =
     concat (map (\<lambda>x. [ucast x, ucast (drop_bit 8 x), ucast (drop_bit 16 x), ucast (drop_bit 24 x)]) xs)"

fun int16_of_bytes :: "byte list \<Rightarrow> 16 word list" where
  "int16_of_bytes (b0 # b1 # bs) = word_rcat [b1, b0] # int16_of_bytes bs"
| "int16_of_bytes _ = []"

fun float32_of_bytes :: "byte list \<Rightarrow> 32 word list" where
  "float32_of_bytes (b0 # b1 # b2 # b3 # bs) = word_rcat [b3, b2, b1, b0] # float32_of_bytes bs"
| "float32_of_bytes _ = []"

fun array_bytes :: "typed_array \<Rightarrow> byte list" where
  \<comment> \<open>the bytes \<^verbatim>\<open>array.buffer\<close> holds from \<^verbatim>\<open>byteOffset\<close> for \<^verbatim>\<open>byteLength\<close>\<close>
  "array_bytes (Float32Array xs) = bytes_of_float32 xs"
| "array_bytes (Int16Array xs) = bytes_of_int16 xs"

definition new_Int16Array :: "byte list \<Rightarrow> error + typed_array" where
  \<comment> \<open>\<^verbatim>\<open>new Int16Array(buffer)\<close>\<close>
  "new_Int16Array buf =
     (if length buf mod 2 \<noteq> 0
      then Inl (RangeError ''byte length of Int16Array should be a multiple of 2'')
      else Inr (Int16Array (int16_of_bytes buf)))"

definition new_Float32Array :: "byte list \<Rightarrow> error + typed_array" where
  \<comment> \<open>\<^verbatim>\<open>new Float32Array(buffer)\<close>\<close>
  "new_Float32Array buf =
     (if length buf mod 4 \<noteq> 0
      then Inl (RangeError ''byte length of Float32Array should be a multiple of 4'')
      else Inr (Float32Array (float32_of_bytes buf)))"

subsection \<open>encode\<close>

text \<open>
  \<^verbatim>\<open>Encoder.prototype.encode = function(pcm)\<close> declares one parameter; a second argument of a
  call is dropped. The body names \<^verbatim>\<open>compressedSize\<close>, which no scope of the module declares:
  the name is looked up on the global object. \<open>G\<close> is the value found there, \<open>None\<close> when the
  global object has no such property, as in a program that only loads this repository; reading
  it then throws a ReferenceError.
\<close>

definition encode_finally :: "'e lib \<Rightarrow> int option \<Rightarrow> 'a \<times> 'e world \<Rightarrow> 'a \<times> 'e world" where
  \<comment> \<open>the outer \<^verbatim>\<open>finally\<close>: \<^verbatim>\<open>if (p_pcm) free(p_pcm)\<close>; \<open>None\<close> is \<^verbatim>\<open>undefined\<close>\<close>
  "encode_finally L p_pcm res =
     (case p_pcm of
        None \<Rightarrow> res
      | Some p \<Rightarrow> if p \<noteq> 0 then (fst res, snd (invoke L (free p) (snd res))) else res)"

definition encode_packet ::
  "'e lib \<Rightarrow> int option \<Rightarrow> encoder \<Rightarrow> int \<Rightarrow> (int \<Rightarrow> int \<Rightarrow> int \<Rightarrow> int \<Rightarrow> int \<Rightarrow> call) \<Rightarrow> 'e world
     \<Rightarrow> (error + byte list) \<times> 'e world" where
  \<comment> \<open>from \<^verbatim>\<open>var p_data = this._lib._malloc(compressedSize)\<close> to the end of the inner \<^verbatim>\<open>try\<close>\<close>
  "encode_packet L G s p_pcm encode w =
     (case G of
        None \<Rightarrow> (Inl (ReferenceError ''compressedSize is not defined''), w)
      | Some compressedSize \<Rightarrow>
          case invoke L (malloc compressedSize) w of (p_data, w1) \<Rightarrow>
          case invoke L (encode (enc_p s) p_pcm 0 p_data compressedSize) w1 of (len, w2) \<Rightarrow>
            (if len < 0 then Inl (Error (stringifyError L (Some len)))
             else Inr (HEAPU8_slice (HEAPU8 w2) p_data (p_data + len)),
             snd (invoke L (free p_data) w2)))"

definition Encoder_encode ::
  "'e lib \<Rightarrow> int option \<Rightarrow> encoder \<Rightarrow> pcm \<Rightarrow> 'e world \<Rightarrow> (error + byte list) \<times> 'e world" where
  "Encoder_encode L G s p w =
     (if pcm_length p \<noteq> Some (enc_frameSize s * enc_channels s)
      then (Inl (Error ''frames must be exactly of size frameSize * channels''), w)
      else
        case p of
          Samples (Float32Array xs) \<Rightarrow>
            (case invoke L (malloc (int (length xs) * 4)) w of (p_pcm, w1) \<Rightarrow>
               encode_finally L (Some p_pcm)
                 (case view_set 4 (bytes_of_float32 xs) (js_sar p_pcm 2) (HEAPU8 w1) of
                    Inl e \<Rightarrow> (Inl e, w1)
                  | Inr h \<Rightarrow> encode_packet L G s p_pcm celt_encode_float (w1\<lparr>HEAPU8 := h\<rparr>)))
        | Samples (Int16Array xs) \<Rightarrow>
            (case invoke L (malloc (int (length xs) * 2)) w of (p_pcm, w1) \<Rightarrow>
               encode_finally L (Some p_pcm)
                 (case view_set 2 (bytes_of_int16 xs) (js_sar p_pcm 1) (HEAPU8 w1) of
                    Inl e \<Rightarrow> (Inl e, w1)
                  | Inr h \<Rightarrow> encode_packet L G s p_pcm celt_encode (w1\<lparr>HEAPU8 := h\<rparr>)))
        | OtherValue n \<Rightarrow>
            encode_finally L None (Inl (TypeError ''pcm must be Int16Array or Float32Array''), w))"

section \<open>Decoder\<close>

record decoder =
  dec_rate :: int
  dec_frameSize :: int
  dec_channels :: int
  dec_unsafe :: bool
  dec_mode :: int
  dec_p :: int

definition Decoder_error :: "'e lib \<Rightarrow> int \<Rightarrow> 'e world \<Rightarrow> error" where
  "Decoder_error L p_err w = Error (stringifyError L (HEAPU32_get (HEAPU8 w) (js_sar p_err 2)))"

definition Decoder :: "'e lib \<Rightarrow> opts \<Rightarrow> 'e world \<Rightarrow> (error + decoder) \<times> 'e world" where
  \<comment> \<open>\<open>w\<close> is the instance \<^verbatim>\<open>this._lib\<close> refers to: the shared one when \<open>unsafe\<close>, a new one otherwise\<close>
  "Decoder L opts w =
     (let opts = extend_opts opts
      in if opt_channels opts < 1 then (Inl (Error ''channels must be greater than 0''), w)
         else if opt_rate opts < 32000 \<or> opt_rate opts > 96000
         then (Inl (Error ''rate must be in range 32000 - 96000''), w)
         else if js_rem (opt_rate opts) 2 \<noteq> 0 then (Inl (Error ''rate must be even''), w)
         else
           case invoke L (malloc 4) w of (p_err, w1) \<Rightarrow>
           case invoke L (celt_mode_create (opt_rate opts) (opt_frameSize opts) p_err) w1 of
             (m, w2) \<Rightarrow>
             if m = 0 then (Inl (Decoder_error L p_err w2), snd (invoke L (free p_err) w2))
             else
               case invoke L (celt_decoder_create m (opt_channels opts) p_err) w2 of
                 (p, w3) \<Rightarrow>
                 if p = 0 then
                   (let w4 = snd (invoke L (celt_mode_destroy m) w3)
                    in (Inl (Decoder_error L p_err w4), snd (invoke L (free p_err) w4)))
                 else
                   (Inr \<lparr>dec_rate = opt_rate opts, dec_frameSize = opt_frameSize opts,
                         dec_channels = opt_channels opts, dec_unsafe = opt_unsafe opts,
                         dec_mode = m, dec_p = p\<rparr>,
                    snd (invoke L (free p_err) w3)))"

definition Decoder_destroy :: "'e lib \<Rightarrow> decoder \<Rightarrow> 'e world \<Rightarrow> (error + unit) \<times> 'e world" where
  "Decoder_destroy L s w =
     (if dec_unsafe s then
        (let w1 = snd (invoke L (celt_decoder_destroy (dec_p s)) w);
             w2 = snd (invoke L (celt_mode_destroy (dec_mode s)) w1)
         in (Inr (), w2))
      else (Inr (), w))"

subsection \<open>decode\<close>

datatype js_data = Null | Buffer "byte list" | Undefined | Number int | Text string

fun instanceof_Buffer :: "js_data \<Rightarrow> bool" where
  "instanceof_Buffer (Buffer b) = True"
| "instanceof_Buffer _ = False"

definition decode_finally ::
  "'e lib \<Rightarrow> int option \<Rightarrow> int \<Rightarrow> 'a \<times> 'e world \<Rightarrow> 'a \<times> 'e world" where
  \<comment> \<open>\<^verbatim>\<open>finally { if (p_data) free(p_data); free(p_pcm) }\<close>; \<open>None\<close> is \<^verbatim>\<open>undefined\<close>\<close>
  "decode_finally L p_data p_pcm res =
     (let w1 = (case p_data of
                  None \<Rightarrow> snd res
                | Some p \<Rightarrow> if p \<noteq> 0 then snd (invoke L (free p) (snd res)) else snd res)
      in (fst res, snd (invoke L (free p_pcm) w1)))"

definition decode_frame ::
  "'e lib \<Rightarrow> decoder \<Rightarrow> (int \<Rightarrow> int \<Rightarrow> int \<Rightarrow> int \<Rightarrow> call) \<Rightarrow> int \<Rightarrow> int \<Rightarrow> int \<Rightarrow> int \<Rightarrow> 'e world
     \<Rightarrow> (error + byte list) \<times> 'e world" where
  \<comment> \<open>from \<^verbatim>\<open>var ret = doDecode(...)\<close> to the \<^verbatim>\<open>return\<close>\<close>
  "decode_frame L s doDecode p_data data_len p_pcm pcmSize w =
     (case invoke L (doDecode (dec_p s) p_data data_len p_pcm) w of (ret, w1) \<Rightarrow>
        if ret < 0 then (Inl (Error (stringifyError L (Some ret))), w1)
        else (Inr (HEAPU8_slice (HEAPU8 w1) p_pcm (p_pcm + pcmSize)), w1))"

definition Decoder_decode ::
  "'e lib \<Rightarrow> decoder \<Rightarrow> js_data \<Rightarrow> int \<Rightarrow> (int \<Rightarrow> int \<Rightarrow> int \<Rightarrow> int \<Rightarrow> call) \<Rightarrow> 'e world
     \<Rightarrow> (error + byte list) \<times> 'e world" where
  "Decoder_decode L s data bps doDecode w =
     (let pcmSize = dec_frameSize s * bps * dec_channels s in
      case invoke L (malloc pcmSize) w of (p_pcm, w1) \<Rightarrow>
        (case data of
           Null \<Rightarrow>
             decode_finally L (Some 0) p_pcm (decode_frame L s doDecode 0 0 p_pcm pcmSize w1)
         | Buffer b \<Rightarrow>
             (case invoke L (malloc (int (length b))) w1 of (p_data, w2) \<Rightarrow>
                decode_finally L (Some p_data) p_pcm
                  (case view_set 1 b p_data (HEAPU8 w2) of
                     Inl e \<Rightarrow> (Inl e, w2)
                   | Inr h \<Rightarrow>
                       decode_frame L s doDecode p_data (int (length b)) p_pcm pcmSize
                         (w2\<lparr>HEAPU8 := h\<rparr>)))
         | _ \<Rightarrow>
             decode_finally L None p_pcm (Inl (TypeError ''data must be Buffer or null''), w1)))"

definition Decoder_decodeInt16 ::
  "'e lib \<Rightarrow> decoder \<Rightarrow> js_data \<Rightarrow> 'e world \<Rightarrow> (error + typed_array) \<times> 'e world" where
  "Decoder_decodeInt16 L s data w =
     (case Decoder_decode L s data 2 celt_decode w of
        (Inl e, w1) \<Rightarrow> (Inl e, w1)
      | (Inr buf, w1) \<Rightarrow> (new_Int16Array buf, w1))"

definition Decoder_decodeFloat32 ::
  "'e lib \<Rightarrow> decoder \<Rightarrow> js_data \<Rightarrow> 'e world \<Rightarrow> (error + typed_array) \<times> 'e world" where
  "Decoder_decodeFloat32 L s data w =
     (case Decoder_decode L s data 4 celt_decode_float w of
        (Inl e, w1) \<Rightarrow> (Inl e, w1)
      | (Inr buf, w1) \<Rightarrow> (new_Float32Array buf, w1))"


section \<open>Stream adapters\<close>

text \<open>
  A chunk is a Buffer: a view of an ArrayBuffer from \<open>byteOffset\<close>, holding \<open>bytes\<close>.
  \<^verbatim>\<open>_transform\<close> ends in one of three ways: an exception that leaves the function, the
  callback called with an error, the callback called with a result.
\<close>

record chunk =
  byteOffset :: nat
  bytes :: "byte list"

datatype 'a outcome = throws error | callback_error error | callback_result 'a

datatype array_type = Float32 | Int16

definition new_view :: "array_type \<Rightarrow> chunk \<Rightarrow> error + pcm" where
  \<comment> \<open>\<^verbatim>\<open>new this._mode(chunk.buffer, chunk.byteOffset, chunk.byteLength / BYTES_PER_ELEMENT)\<close>;
      the length is truncated to a whole number of elements\<close>
  "new_view t c =
     (case t of
        Float32 \<Rightarrow>
          if byteOffset c mod 4 \<noteq> 0
          then Inl (RangeError ''start offset of Float32Array should be a multiple of 4'')
          else Inr (Samples (Float32Array (float32_of_bytes (bytes c))))
      | Int16 \<Rightarrow>
          if byteOffset c mod 2 \<noteq> 0
          then Inl (RangeError ''start offset of Int16Array should be a multiple of 2'')
          else Inr (Samples (Int16Array (int16_of_bytes (bytes c)))))"

text \<open>
  The stream keeps the encoder object and calls its \<^verbatim>\<open>encode\<close> method with two arguments;
  the method is looked up at each call (the test suite replaces it by a stub), so the stream is
  modelled over any such method.
\<close>

record 'w encoder_stream =
  es_encode :: "pcm \<Rightarrow> int \<Rightarrow> 'w \<Rightarrow> (error + byte list) \<times> 'w"
  es_mode :: array_type
  es_packetSize :: int

definition EncoderStream ::
  "(pcm \<Rightarrow> int \<Rightarrow> 'w \<Rightarrow> (error + byte list) \<times> 'w) \<Rightarrow> string \<Rightarrow> int \<Rightarrow> error + 'w encoder_stream" where
  "EncoderStream encoder_encode mode packetSize =
     (if mode = ''Float32''
      then Inr \<lparr>es_encode = encoder_encode, es_mode = Float32, es_packetSize = packetSize\<rparr>
      else if mode = ''Int16''
      then Inr \<lparr>es_encode = encoder_encode, es_mode = Int16, es_packetSize = packetSize\<rparr>
      else Inl (TypeError (''mode cannot be '' @ mode)))"

definition Encoder_stream ::
  "'e lib \<Rightarrow> int option \<Rightarrow> encoder \<Rightarrow> string \<Rightarrow> int \<Rightarrow> error + 'e world encoder_stream" where
  "Encoder_stream L G s mode packetSize =
     EncoderStream (\<lambda>p n. Encoder_encode L G s p) mode packetSize"

definition EncoderStream_transform ::
  "'w encoder_stream \<Rightarrow> chunk \<Rightarrow> 'w \<Rightarrow> byte list outcome \<times> 'w" where
  "EncoderStream_transform st c w =
     (case new_view (es_mode st) c of
        Inl e \<Rightarrow> (throws e, w)
      | Inr p \<Rightarrow>
          (case es_encode st p (es_packetSize st) w of
             (Inl e, w1) \<Rightarrow> (callback_error e, w1)
           | (Inr r, w1) \<Rightarrow> (callback_result r, w1)))"

record 'w decoder_stream =
  ds_decode :: "js_data \<Rightarrow> 'w \<Rightarrow> (error + typed_array) \<times> 'w"

definition DecoderStream ::
  "(js_data \<Rightarrow> 'w \<Rightarrow> (error + typed_array) \<times> 'w) \<Rightarrow> (js_data \<Rightarrow> 'w \<Rightarrow> (error + typed_array) \<times> 'w)
     \<Rightarrow> string \<Rightarrow> error + 'w decoder_stream" where
  \<comment> \<open>the first two arguments are the decoder's \<^verbatim>\<open>decodeFloat32\<close> and \<^verbatim>\<open>decodeInt16\<close>\<close>
  "DecoderStream decoder_decodeFloat32 decoder_decodeInt16 mode =
     (if mode = ''Float32'' then Inr \<lparr>ds_decode = decoder_decodeFloat32\<rparr>
      else if mode = ''Int16'' then Inr \<lparr>ds_decode = decoder_decodeInt16\<rparr>
      else Inl (TypeError (''mode cannot be '' @ mode)))"

definition Decoder_stream ::
  "'e lib \<Rightarrow> decoder \<Rightarrow> string \<Rightarrow> error + 'e world decoder_stream" where
  "Decoder_stream L s mode = DecoderStream (Decoder_decodeFloat32 L s) (Decoder_decodeInt16 L s) mode"

definition DecoderStream_transform ::
  "'w decoder_stream \<Rightarrow> chunk \<Rightarrow> 'w \<Rightarrow> byte list outcome \<times> 'w" where
  "DecoderStream_transform st c w =
     (case ds_decode st (Buffer (bytes c)) w of
        (Inl e, w1) \<Rightarrow> (callback_error e, w1)
      | (Inr array, w1) \<Rightarrow> (callback_result (array_bytes array), w1))"

text \<open>
  Modelled from the spec: the base class \<^verbatim>\<open>Transform\<close> that drives \<^verbatim>\<open>_transform\<close> is
  Node's, not the repository's. Section 4.5 of the specification gives it two states: in
  \<open>Ready\<close> each inbound chunk is handed to \<^verbatim>\<open>_transform\<close> once, in order, and what the
  callback is given is emitted; the first failure is surfaced and the adapter stops
  (\<open>Faulted\<close>, terminal).
\<close>

datatype stream_state = Ready | Faulted error

fun stream_write ::
  "(chunk \<Rightarrow> 'w \<Rightarrow> 'o outcome \<times> 'w) \<Rightarrow> chunk list \<Rightarrow> 'w \<Rightarrow> 'o list \<times> stream_state \<times> 'w" where
  "stream_write T [] w = ([], Ready, w)"
| "stream_write T (c # cs) w =
     (case T c w of
        (callback_result r, w1) \<Rightarrow>
          (case stream_write T cs w1 of (out, st, w2) \<Rightarrow> (r # out, st, w2))
      | (callback_error e, w1) \<Rightarrow> ([], Faulted e, w1)
      | (throws e, w1) \<Rightarrow> ([], Faulted e, w1))"

subsection \<open>The session operation, called directly\<close>



fun BYTES_PER_ELEMENT :: "array_type \<Rightarrow> nat" where
  "BYTES_PER_ELEMENT Float32 = 4"
| "BYTES_PER_ELEMENT Int16 = 2"



subsection \<open>Counting the coder's work\<close>

fun is_coder_call :: "call \<Rightarrow> bool" where
  "is_coder_call (celt_encode e p_pcm opt p_data n) = True"
| "is_coder_call (celt_encode_float e p_pcm opt p_data n) = True"
| "is_coder_call (celt_decode d p_data len p_pcm) = True"
| "is_coder_call (celt_decode_float d p_data len p_pcm) = True"
| "is_coder_call _ = False"

definition coder_calls :: "'e world \<Rightarrow> nat" where
  \<comment> \<open>how many frames the engine has been asked to encode or decode so far\<close>
  "coder_calls w = length (filter is_coder_call (calls w))"

section \<open>A small engine to run the wrapper on\<close>

text \<open>
  An instance of the parameter, for concrete runs: a bump allocator (every block has a non-null,
  8-aligned address, also a block of size 0, as with dlmalloc), mode creation that accepts even
  frame sizes from 64 to 512, coder creation that accepts at most two channels, both storing
  the error code at \<open>p_err\<close> when they fail (\<^verbatim>\<open>CELT_BAD_ARG\<close>, -1), and coders that report success and
  leave the heap as it is. The private state is the address of the next block.
\<close>

definition poke :: "byte list \<Rightarrow> int \<Rightarrow> byte list \<Rightarrow> byte list" where
  "poke h p bs =
     (if 0 \<le> p \<and> p + int (length bs) \<le> int (length h)
      then take (nat p) h @ bs @ drop (nat p + length bs) h
      else h)"

definition CELT_BAD_ARG :: "byte list" where
  \<comment> \<open>the 32-bit integer -1, as it is stored\<close>
  "CELT_BAD_ARG = [255, 255, 255, 255]"

fun toy_native :: "call \<Rightarrow> byte list \<times> int \<Rightarrow> int \<times> byte list \<times> int" where
  "toy_native (malloc n) (h, brk) = (brk, h, brk + 8 * (1 + (max n 0 + 7) div 8))"
| "toy_native (free p) (h, brk) = (0, h, brk)"
| "toy_native (celt_mode_create r fs p_err) (h, brk) =
     (if 64 \<le> fs \<and> fs \<le> 512 \<and> fs mod 2 = 0 then (brk, h, brk + 8)
      else (0, poke h p_err CELT_BAD_ARG, brk))"
| "toy_native (celt_mode_destroy m) (h, brk) = (0, h, brk)"
| "toy_native (celt_encoder_create m ch p_err) (h, brk) =
     (if ch \<le> 2 then (brk, h, brk + 8) else (0, poke h p_err CELT_BAD_ARG, brk))"
| "toy_native (celt_encoder_destroy e) (h, brk) = (0, h, brk)"
| "toy_native (celt_encode e p_pcm opt p_data n) (h, brk) = ((if n < 0 then - 1 else n), h, brk)"
| "toy_native (celt_encode_float e p_pcm opt p_data n) (h, brk) = ((if n < 0 then - 1 else n), h, brk)"
| "toy_native (celt_decoder_create m ch p_err) (h, brk) =
     (if ch \<le> 2 then (brk, h, brk + 8) else (0, poke h p_err CELT_BAD_ARG, brk))"
| "toy_native (celt_decoder_destroy d) (h, brk) = (0, h, brk)"
| "toy_native (celt_decode d p_data len p_pcm) (h, brk) = ((if len < 0 then - 1 else 0), h, brk)"
| "toy_native (celt_decode_float d p_data len p_pcm) (h, brk) = ((if len < 0 then - 1 else 0), h, brk)"

definition toy_strerror :: "int \<Rightarrow> string" where
  "toy_strerror c =
     (if c = 0 then ''No error''
      else if c = - 1 then ''Invalid argument''
      else if c = - 2 then ''Invalid mode''
      else if c = - 3 then ''Internal error''
      else if c = - 4 then ''Corrupted stream''
      else if c = - 5 then ''Unimplemented''
      else if c = - 6 then ''Invalid state''
      else if c = - 7 then ''Memory allocation failed''
      else ''Unknown error'')"

definition toy_lib :: "int lib" where
  "toy_lib = \<lparr>native = toy_native, strerror = toy_strerror\<rparr>"

definition toy_world :: "int world" where
  "toy_world = \<lparr>HEAPU8 = replicate 2048 0, engine = 8, calls = []\<rparr>"

definition no_opts :: opts where
  \<comment> \<open>\<^verbatim>\<open>{}\<close>\<close>
  "no_opts = \<lparr>rate = None, frameSize = None, channels = None, unsafe = None,
       application = None\<rparr>"

definition toy_encoder :: encoder where
  "toy_encoder =
     \<lparr>enc_rate = 48000, enc_frameSize = 256, enc_channels = 1, enc_application = None,
      enc_unsafe = False,
      enc_mode = 24, enc_p = 32\<rparr>"

definition toy_encoder_world :: "int world" where
  "toy_encoder_world =
     \<lparr>HEAPU8 = replicate 2048 0, engine = 40,
      calls = [malloc 4, celt_mode_create 48000 256 8, celt_encoder_create 24 1 8, free 8]\<rparr>"

definition toy_decoder :: decoder where
  "toy_decoder =
     \<lparr>dec_rate = 48000, dec_frameSize = 256, dec_channels = 1, dec_unsafe = False,
      dec_mode = 24, dec_p = 32\<rparr>"

definition toy_decoder_world :: "int world" where
  "toy_decoder_world =
     \<lparr>HEAPU8 = replicate 2048 0, engine = 40,
      calls = [malloc 4, celt_mode_create 48000 256 8, celt_decoder_create 24 1 8, free 8]\<rparr>"


section \<open>Basic facts\<close>

lemma js_rem_2: "js_rem r 2 = 0 \<longleftrightarrow> even r"
  unfolding js_rem_def by (simp add: smod_int_alt_def sgn_if) presburger

lemma calls_invoke: "calls (snd (invoke L c w)) = calls w @ [c]"
  by (simp add: invoke_def split: prod.splits)

lemma invoke_calls: "invoke L c w = (r, w1) \<Longrightarrow> calls w1 = calls w @ [c]"
  by (auto simp: invoke_def split: prod.splits)

lemma length_int16_of_bytes: "length (int16_of_bytes bs) = length bs div 2"
  by (induction bs rule: int16_of_bytes.induct) simp_all

lemma length_float32_of_bytes: "length (float32_of_bytes bs) = length bs div 4"
  by (induction bs rule: float32_of_bytes.induct) simp_all

lemma length_HEAPU8_slice:
  "0 \<le> a \<Longrightarrow> 0 \<le> n \<Longrightarrow> a + n \<le> int (length h) \<Longrightarrow> int (length (HEAPU8_slice h a (a + n))) = n"
  by (auto simp: HEAPU8_slice_def Let_def min_def)

subsection \<open>Construction\<close>

lemma Encoder_channels:
  "opt_channels (extend_opts opt) < 1 \<Longrightarrow>
   Encoder L opt w = (Inl (Error ''channels must be greater than 0''), w)"
  by (simp add: Encoder_def Let_def)

lemma Decoder_channels:
  "opt_channels (extend_opts opt) < 1 \<Longrightarrow>
   Decoder L opt w = (Inl (Error ''channels must be greater than 0''), w)"
  by (simp add: Decoder_def Let_def)

lemma Encoder_valid:
  assumes "1 \<le> opt_channels (extend_opts opt)"
    and "32000 \<le> opt_rate (extend_opts opt)" and "opt_rate (extend_opts opt) \<le> 96000"
    and "even (opt_rate (extend_opts opt))"
  shows "\<exists>rest. calls (snd (Encoder L opt w)) =
            calls w @ malloc 4
              # celt_mode_create (opt_rate (extend_opts opt)) (opt_frameSize (extend_opts opt))
                  (fst (invoke L (malloc 4) w))
              # rest"
    and "(\<exists>s. fst (Encoder L opt w) = Inr s \<and> enc_frameSize s = opt_frameSize (extend_opts opt))
         \<or> (\<exists>w'. fst (Encoder L opt w) = Inl (Encoder_error L (fst (invoke L (malloc 4) w)) w'))"
proof -
  obtain p_err w1 where i: "invoke L (malloc 4) w = (p_err, w1)"
    by (cases "invoke L (malloc 4) w")
  obtain m w2 where ii: "invoke L (celt_mode_create (opt_rate (extend_opts opt))
      (opt_frameSize (extend_opts opt)) p_err) w1 = (m, w2)"
    by (cases "invoke L (celt_mode_create (opt_rate (extend_opts opt))
      (opt_frameSize (extend_opts opt)) p_err) w1")
  obtain q w3 where iii: "invoke L (celt_encoder_create m (opt_channels (extend_opts opt)) p_err) w2
      = (q, w3)"
    by (cases "invoke L (celt_encoder_create m (opt_channels (extend_opts opt)) p_err) w2")
  have c: "calls w1 = calls w @ [malloc 4]"
    "calls w2 = calls w1 @ [celt_mode_create (opt_rate (extend_opts opt))
      (opt_frameSize (extend_opts opt)) p_err]"
    "calls w3 = calls w2 @ [celt_encoder_create m (opt_channels (extend_opts opt)) p_err]"
    using i ii iii by (simp_all add: invoke_calls)
  have v: "\<not> opt_channels (extend_opts opt) < 1"
    "\<not> (opt_rate (extend_opts opt) < 32000 \<or> opt_rate (extend_opts opt) > 96000)"
    "\<not> js_rem (opt_rate (extend_opts opt)) 2 \<noteq> 0"
    using assms by (simp_all add: js_rem_2)
  show "\<exists>rest. calls (snd (Encoder L opt w)) =
            calls w @ malloc 4
              # celt_mode_create (opt_rate (extend_opts opt)) (opt_frameSize (extend_opts opt))
                  (fst (invoke L (malloc 4) w))
              # rest"
    using v by (simp add: Encoder_def Let_def i ii iii c calls_invoke)
  show "(\<exists>s. fst (Encoder L opt w) = Inr s \<and> enc_frameSize s = opt_frameSize (extend_opts opt))
         \<or> (\<exists>w'. fst (Encoder L opt w) = Inl (Encoder_error L (fst (invoke L (malloc 4) w)) w'))"
    using v by (auto simp: Encoder_def Let_def i ii iii)
qed

lemma Decoder_valid:
  assumes "1 \<le> opt_channels (extend_opts opt)"
    and "32000 \<le> opt_rate (extend_opts opt)" and "opt_rate (extend_opts opt) \<le> 96000"
    and "even (opt_rate (extend_opts opt))"
  shows "\<exists>rest. calls (snd (Decoder L opt w)) =
            calls w @ malloc 4
              # celt_mode_create (opt_rate (extend_opts opt)) (opt_frameSize (extend_opts opt))
                  (fst (invoke L (malloc 4) w))
              # rest"
    and "(\<exists>s. fst (Decoder L opt w) = Inr s \<and> dec_frameSize s = opt_frameSize (extend_opts opt))
         \<or> (\<exists>w'. fst (Decoder L opt w) = Inl (Decoder_error L (fst (invoke L (malloc 4) w)) w'))"
proof -
  obtain p_err w1 where i: "invoke L (malloc 4) w = (p_err, w1)"
    by (cases "invoke L (malloc 4) w")
  obtain m w2 where ii: "invoke L (celt_mode_create (opt_rate (extend_opts opt))
      (opt_frameSize (extend_opts opt)) p_err) w1 = (m, w2)"
    by (cases "invoke L (celt_mode_create (opt_rate (extend_opts opt))
      (opt_frameSize (extend_opts opt)) p_err) w1")
  obtain q w3 where iii: "invoke L (celt_decoder_create m (opt_channels (extend_opts opt)) p_err) w2
      = (q, w3)"
    by (cases "invoke L (celt_decoder_create m (opt_channels (extend_opts opt)) p_err) w2")
  have c: "calls w1 = calls w @ [malloc 4]"
    "calls w2 = calls w1 @ [celt_mode_create (opt_rate (extend_opts opt))
      (opt_frameSize (extend_opts opt)) p_err]"
    "calls w3 = calls w2 @ [celt_decoder_create m (opt_channels (extend_opts opt)) p_err]"
    using i ii iii by (simp_all add: invoke_calls)
  have v: "\<not> opt_channels (extend_opts opt) < 1"
    "\<not> (opt_rate (extend_opts opt) < 32000 \<or> opt_rate (extend_opts opt) > 96000)"
    "\<not> js_rem (opt_rate (extend_opts opt)) 2 \<noteq> 0"
    using assms by (simp_all add: js_rem_2)
  show "\<exists>rest. calls (snd (Decoder L opt w)) =
            calls w @ malloc 4
              # celt_mode_create (opt_rate (extend_opts opt)) (opt_frameSize (extend_opts opt))
                  (fst (invoke L (malloc 4) w))
              # rest"
    using v by (simp add: Decoder_def Let_def i ii iii c calls_invoke)
  show "(\<exists>s. fst (Decoder L opt w) = Inr s \<and> dec_frameSize s = opt_frameSize (extend_opts opt))
         \<or> (\<exists>w'. fst (Decoder L opt w) = Inl (Decoder_error L (fst (invoke L (malloc 4) w)) w'))"
    using v by (auto simp: Decoder_def Let_def i ii iii)
qed

lemma Encoder_unsafe:
  "Encoder L opt w = (Inr s, w') \<Longrightarrow> enc_unsafe s = opt_unsafe (extend_opts opt)"
  by (auto simp: Encoder_def Let_def split: if_splits prod.splits)

lemma Decoder_unsafe:
  "Decoder L opt w = (Inr s, w') \<Longrightarrow> dec_unsafe s = opt_unsafe (extend_opts opt)"
  by (auto simp: Decoder_def Let_def split: if_splits prod.splits)



subsection \<open>decode\<close>

lemma decode_Null:
  assumes "invoke L (malloc (dec_frameSize s * bps * dec_channels s)) w = (p_pcm, w1)"
    and "invoke L (doDecode (dec_p s) 0 0 p_pcm) w1 = (ret, w2)"
    and "0 \<le> ret"
  shows "Decoder_decode L s Null bps doDecode w =
           (Inr (HEAPU8_slice (HEAPU8 w2) p_pcm (p_pcm + dec_frameSize s * bps * dec_channels s)),
            snd (invoke L (free p_pcm) w2))"
  using assms by (simp add: Decoder_decode_def Let_def decode_frame_def decode_finally_def)

lemma decode_TypeError:
  assumes "data \<noteq> Null" and "\<not> instanceof_Buffer data"
   and "invoke L (malloc (dec_frameSize s * bps * dec_channels s)) w = (p_pcm, w1)"
  shows "Decoder_decode L s data bps doDecode w =
           (Inl (TypeError ''data must be Buffer or null''), snd (invoke L (free p_pcm) w1))"
  using assms by (cases data) (simp_all add: Decoder_decode_def Let_def decode_finally_def)

subsection \<open>encode, and decode of a Buffer\<close>

lemma length_bytes_of_int16: "length (bytes_of_int16 xs) = 2 * length xs"
  by (induction xs) (simp_all add: bytes_of_int16_def)

lemma length_bytes_of_float32: "length (bytes_of_float32 xs) = 4 * length xs"
  by (induction xs) (simp_all add: bytes_of_float32_def)

lemma encode_never_returns: "\<exists>e. fst (Encoder_encode L None s p w) = Inl e"
proof (cases "pcm_length p = Some (enc_frameSize s * enc_channels s)")
  case False
  then show ?thesis by (simp add: Encoder_encode_def)
next
  case True
  show ?thesis
  proof (cases p)
    case (OtherValue n)
    with True show ?thesis by (simp add: Encoder_encode_def encode_finally_def)
  next
    case (Samples a)
    with True show ?thesis
      by (cases a)
        (auto simp: Encoder_encode_def encode_finally_def encode_packet_def
          split: prod.splits sum.splits)
  qed
qed

lemma encode_Int16_no_global:
  assumes "int (length xs) = enc_frameSize s * enc_channels s"
    and "invoke L (malloc (int (length xs) * 2)) w = (p_pcm, w1)"
    and "view_set 2 (bytes_of_int16 xs) (js_sar p_pcm 1) (HEAPU8 w1) = Inr h"
  shows "fst (Encoder_encode L None s (Samples (Int16Array xs)) w) =
           Inl (ReferenceError ''compressedSize is not defined'')"
    and "calls (snd (Encoder_encode L None s (Samples (Int16Array xs)) w)) =
           calls w @ malloc (int (length xs) * 2) # (if p_pcm \<noteq> 0 then [free p_pcm] else [])"
proof -
  have c: "calls w1 = calls w @ [malloc (int (length xs) * 2)]"
    using assms(2) by (rule invoke_calls)
  have e: "Encoder_encode L None s (Samples (Int16Array xs)) w =
      encode_finally L (Some p_pcm)
        (Inl (ReferenceError ''compressedSize is not defined''), w1\<lparr>HEAPU8 := h\<rparr>)"
    by (simp add: Encoder_encode_def assms(1)[symmetric] assms(2) assms(3)[simplified]
        encode_packet_def)
  show "fst (Encoder_encode L None s (Samples (Int16Array xs)) w) =
           Inl (ReferenceError ''compressedSize is not defined'')"
    unfolding e by (simp add: encode_finally_def)
  show "calls (snd (Encoder_encode L None s (Samples (Int16Array xs)) w)) =
           calls w @ malloc (int (length xs) * 2) # (if p_pcm \<noteq> 0 then [free p_pcm] else [])"
    unfolding e by (simp add: encode_finally_def calls_invoke c)
qed

lemma view_set_Nil:
  "0 \<le> off \<Longrightarrow> off \<le> int (length h) \<Longrightarrow> view_set 1 [] off h = Inr h"
  by (simp add: view_set_def)

lemma snd_DecoderStream_transform:
  "snd (DecoderStream_transform st c w) = snd (ds_decode st (Buffer (bytes c)) w)"
  by (simp add: DecoderStream_transform_def split: prod.splits sum.splits)

lemma snd_decodeInt16:
  "snd (Decoder_decodeInt16 L s d w) = snd (Decoder_decode L s d 2 celt_decode w)"
  by (simp add: Decoder_decodeInt16_def split: prod.splits sum.splits)

lemma decode_Buffer_calls:
  assumes "invoke L (malloc (dec_frameSize s * bps * dec_channels s)) w = (p_pcm, w1)"
    and "invoke L (malloc (int (length b))) w1 = (p_data, w2)"
    and "view_set 1 b p_data (HEAPU8 w2) = Inr h"
  shows "calls (snd (Decoder_decode L s (Buffer b) bps doDecode w)) =
           calls w @
             [malloc (dec_frameSize s * bps * dec_channels s), malloc (int (length b)),
              doDecode (dec_p s) p_data (int (length b)) p_pcm]
             @ (if p_data \<noteq> 0 then [free p_data] else []) @ [free p_pcm]"
proof -
  obtain ret w3 where d: "invoke L (doDecode (dec_p s) p_data (int (length b)) p_pcm)
      (w2\<lparr>HEAPU8 := h\<rparr>) = (ret, w3)"
    by (cases "invoke L (doDecode (dec_p s) p_data (int (length b)) p_pcm) (w2\<lparr>HEAPU8 := h\<rparr>)")
  have c: "calls w1 = calls w @ [malloc (dec_frameSize s * bps * dec_channels s)]"
    "calls w2 = calls w1 @ [malloc (int (length b))]"
    "calls w3 = calls w2 @ [doDecode (dec_p s) p_data (int (length b)) p_pcm]"
    using assms(1,2) d by (simp_all add: invoke_calls)
  have e: "Decoder_decode L s (Buffer b) bps doDecode w =
      decode_finally L (Some p_data) p_pcm
        (if ret < 0 then (Inl (Error (stringifyError L (Some ret))), w3)
         else (Inr (HEAPU8_slice (HEAPU8 w3) p_pcm
                 (p_pcm + dec_frameSize s * bps * dec_channels s)), w3))"
    by (simp add: Decoder_decode_def Let_def decode_frame_def assms(1,2) assms(3)[simplified] d)
  show ?thesis
    unfolding e by (simp add: decode_finally_def calls_invoke c)
qed

lemma decode_Null_calls:
  assumes "invoke L (malloc (dec_frameSize s * bps * dec_channels s)) w = (p_pcm, w1)"
  shows "calls (snd (Decoder_decode L s Null bps doDecode w)) =
           calls w @
             [malloc (dec_frameSize s * bps * dec_channels s), doDecode (dec_p s) 0 0 p_pcm,
              free p_pcm]"
proof -
  obtain ret w2 where d: "invoke L (doDecode (dec_p s) 0 0 p_pcm) w1 = (ret, w2)"
    by (cases "invoke L (doDecode (dec_p s) 0 0 p_pcm) w1")
  have c: "calls w1 = calls w @ [malloc (dec_frameSize s * bps * dec_channels s)]"
    "calls w2 = calls w1 @ [doDecode (dec_p s) 0 0 p_pcm]"
    using assms d by (simp_all add: invoke_calls)
  have e: "Decoder_decode L s Null bps doDecode w =
      decode_finally L (Some 0) p_pcm
        (if ret < 0 then (Inl (Error (stringifyError L (Some ret))), w2)
         else (Inr (HEAPU8_slice (HEAPU8 w2) p_pcm
                 (p_pcm + dec_frameSize s * bps * dec_channels s)), w2))"
    by (simp add: Decoder_decode_def Let_def decode_frame_def assms d)
  show ?thesis
    unfolding e by (simp add: decode_finally_def calls_invoke c)
qed

subsection \<open>One coder call per successful operation\<close>



lemma coder_calls_HEAPU8 [simp]: "coder_calls (w\<lparr>HEAPU8 := h\<rparr>) = coder_calls w"
  by (simp add: coder_calls_def)







subsection \<open>Streams\<close>




lemma Encoder_stream_encode:
  "Encoder_stream L G s mode packetSize = Inr es \<Longrightarrow>
   es_encode es = (\<lambda>p n. Encoder_encode L G s p)"
  by (auto simp: Encoder_stream_def EncoderStream_def split: if_splits)



subsection \<open>Bytes and samples\<close>









subsection \<open>Streams and the session operation\<close>






lemma new_view_misaligned:
  "byteOffset c mod BYTES_PER_ELEMENT t \<noteq> 0 \<Longrightarrow> \<exists>e. new_view t c = Inl (RangeError e)"
  by (cases t) (simp_all add: new_view_def)




lemma own_encode_stream_faults:
  assumes "Encoder_stream L None enc mode packetSize = Inr es"
  shows "\<exists>e w'. stream_write (EncoderStream_transform es) (c # cs) w = ([], Faulted e, w')"
proof (cases "new_view (es_mode es) c")
  case (Inl e)
  then show ?thesis by (simp add: EncoderStream_transform_def)
next
  case (Inr p)
  obtain r w1 where e: "Encoder_encode L None enc p w = (r, w1)"
    by (cases "Encoder_encode L None enc p w")
  with encode_never_returns [of L enc p w] obtain err where "r = Inl err" by auto
  with e Inr Encoder_stream_encode [OF assms] show ?thesis
    by (simp add: EncoderStream_transform_def)
qed

subsection \<open>The small engine\<close>


lemma invoke_toy:
  "invoke toy_lib c \<lparr>HEAPU8 = h, engine = b, calls = cs\<rparr> =
     (case toy_native c (h, b) of
        (r, h', b') \<Rightarrow> (r, \<lparr>HEAPU8 = h', engine = b', calls = cs @ [c]\<rparr>))"
  by (simp add: invoke_def toy_lib_def)

lemma strerror_toy: "strerror toy_lib = toy_strerror"
  by (simp add: toy_lib_def)

lemma poke_toy:
  "poke (replicate 2048 0) 8 CELT_BAD_ARG = replicate 8 0 @ 255 # 255 # 255 # 255 # replicate 2036 0"
  by (simp add: poke_def CELT_BAD_ARG_def)

lemma stringifyError_toy:
  "stringifyError toy_lib
     (HEAPU32_get (replicate 8 0 @ 255 # 255 # 255 # 255 # replicate 2036 0) (js_sar 8 2)) =
   ''Invalid argument''"
  by (simp add: stringifyError_def HEAPU32_get_def js_sar_def to_int32_def strerror_toy
      toy_strerror_def)

lemma toy_Encoder: "Encoder toy_lib no_opts toy_world = (Inr toy_encoder, toy_encoder_world)"
  by (simp add: Encoder_def extend_opts_def js_extend_def no_opts_def toy_world_def invoke_def
      toy_lib_def js_rem_def smod_int_alt_def toy_encoder_def toy_encoder_world_def)

lemma toy_Decoder: "Decoder toy_lib no_opts toy_world = (Inr toy_decoder, toy_decoder_world)"
  by (simp add: Decoder_def extend_opts_def js_extend_def no_opts_def toy_world_def invoke_def
      toy_lib_def js_rem_def smod_int_alt_def toy_decoder_def toy_decoder_world_def)

section \<open>Claims\<close>

text \<open>
  C1 fails on the code. The scenario of the specification, run on the small engine: the
  encoder is constructed, and \<^verbatim>\<open>encode\<close> of 256 zero samples, with nothing named
  \<^verbatim>\<open>compressedSize\<close> in scope, throws a ReferenceError after the samples were copied to
  the heap; the sample buffer is freed and no encode function of the engine is called. By
  \<open>encode_never_returns\<close> this is so for every engine, session and input.
\<close>

theorem encode_scenario_throws:
  "Encoder toy_lib \<lparr>rate = Some 48000, frameSize = Some 256, channels = Some 1, unsafe = None,
       application = None\<rparr>
     toy_world = (Inr toy_encoder, toy_encoder_world)
   \<and> fst (Encoder_encode toy_lib None toy_encoder (Samples (Int16Array (replicate 256 0)))
        toy_encoder_world) = Inl (ReferenceError ''compressedSize is not defined'')
   \<and> calls (snd (Encoder_encode toy_lib None toy_encoder (Samples (Int16Array (replicate 256 0)))
        toy_encoder_world)) = calls toy_encoder_world @ [malloc 512, free 40]"
proof -
  have c: "Encoder toy_lib \<lparr>rate = Some 48000, frameSize = Some 256, channels = Some 1, unsafe = None,
       application = None\<rparr>
     toy_world = (Inr toy_encoder, toy_encoder_world)"
    by (simp add: Encoder_def extend_opts_def js_extend_def toy_world_def invoke_toy
      js_rem_def smod_int_alt_def toy_encoder_def toy_encoder_world_def)
  let ?xs = "replicate 256 (0 :: 16 word)"
  let ?w1 = "\<lparr>HEAPU8 = replicate 2048 0, engine = 560,
    calls = calls toy_encoder_world @ [malloc 512]\<rparr> :: int world"
  have 1: "int (length ?xs) = enc_frameSize toy_encoder * enc_channels toy_encoder"
    by (simp add: toy_encoder_def)
  have 2: "invoke toy_lib (malloc (int (length ?xs) * 2)) toy_encoder_world = (40, ?w1)"
    by (simp add: toy_encoder_world_def invoke_toy)
  have 3: "view_set 2 (bytes_of_int16 ?xs) (js_sar 40 1) (HEAPU8 ?w1) =
      Inr (take 40 (replicate 2048 0) @ bytes_of_int16 ?xs @ drop 552 (replicate 2048 0))"
    by (simp add: view_set_def length_bytes_of_int16 js_sar_def to_int32_def)
  from encode_Int16_no_global [OF 1 2 3] c show ?thesis by simp
qed

text \<open>
  C2 fails on the code. \<^verbatim>\<open>_transform\<close> hands the empty chunk to \<^verbatim>\<open>decodeInt16\<close> as
  it is; being a Buffer it is copied to a block of size 0 and the engine is called with the
  address of that block and length 0. For the loss signal \<open>null\<close> the engine is called with
  the null pointer. On the small engine, whose allocator returns a non-null address for size
  0, the two calls differ.
\<close>

theorem empty_chunk_is_a_packet_of_length_0:
  "Decoder_stream toy_lib toy_decoder ''Int16'' =
     Inr \<lparr>ds_decode = Decoder_decodeInt16 toy_lib toy_decoder\<rparr>
   \<and> calls (snd (DecoderStream_transform \<lparr>ds_decode = Decoder_decodeInt16 toy_lib toy_decoder\<rparr>
       \<lparr>byteOffset = 0, bytes = []\<rparr> toy_decoder_world)) =
     calls toy_decoder_world @ [malloc 512, malloc 0, celt_decode 32 560 0 40, free 560, free 40]
   \<and> calls (snd (Decoder_decodeInt16 toy_lib toy_decoder Null toy_decoder_world)) =
     calls toy_decoder_world @ [malloc 512, celt_decode 32 0 0 40, free 40]"
proof -
  let ?w1 = "\<lparr>HEAPU8 = replicate 2048 0, engine = 560,
    calls = calls toy_decoder_world @ [malloc 512]\<rparr> :: int world"
  let ?w2 = "\<lparr>HEAPU8 = replicate 2048 0, engine = 568,
    calls = calls toy_decoder_world @ [malloc 512, malloc 0]\<rparr> :: int world"
  have s: "dec_frameSize toy_decoder * 2 * dec_channels toy_decoder = 512" "dec_p toy_decoder = 32"
    by (simp_all add: toy_decoder_def)
  have 1: "invoke toy_lib (malloc (dec_frameSize toy_decoder * 2 * dec_channels toy_decoder))
      toy_decoder_world = (40, ?w1)"
    by (simp add: s toy_decoder_world_def invoke_toy)
  have 2: "invoke toy_lib (malloc (int (length ([] :: byte list)))) ?w1 = (560, ?w2)"
    by (simp add: invoke_toy)
  have 3: "view_set 1 [] 560 (HEAPU8 ?w2) = Inr (HEAPU8 ?w2)"
    by (rule view_set_Nil) simp_all
  have 4: "Decoder_stream toy_lib toy_decoder ''Int16'' =
     Inr \<lparr>ds_decode = Decoder_decodeInt16 toy_lib toy_decoder\<rparr>"
    by (simp add: Decoder_stream_def DecoderStream_def)
  from decode_Buffer_calls [OF 1 2 3, of celt_decode] decode_Null_calls [OF 1, of celt_decode] 4
  show ?thesis
    by (simp add: snd_DecoderStream_transform snd_decodeInt16 s)
qed

text \<open>
  C3, as stated, fails: the number of channels is tested before the rate, so options with
  \<open>channels = 0\<close> and \<open>rate = 42\<close> are refused with the message about the channels, which
  does not mention the rate.
\<close>

theorem rate_error_counterexample:
  "Encoder toy_lib \<lparr>rate = Some 42, frameSize = None, channels = Some 0, unsafe = None,
       application = None\<rparr> toy_world =
     (Inl (Error ''channels must be greater than 0''), toy_world)
   \<and> Decoder toy_lib \<lparr>rate = Some 42, frameSize = None, channels = Some 0, unsafe = None,
       application = None\<rparr> toy_world =
     (Inl (Error ''channels must be greater than 0''), toy_world)
   \<and> \<not> references ''rate'' ''channels must be greater than 0''"
  by (simp add: Encoder_def Decoder_def extend_opts_def js_extend_def)

text \<open>
  C3, amended. For all options, construction of an encoder or a decoder
  \<^item> fails with an error whose message mentions \<open>channels\<close> when \<open>channels < 1\<close>;
  \<^item> fails with an error whose message mentions \<open>rate\<close> when \<open>channels \<ge> 1\<close> and the rate is
    below 32000, above 96000 or odd;
  \<^item> raises neither when \<open>channels \<ge> 1\<close> and the rate is even and in range: the engine is
    asked for a mode, and the constructor returns a session or the engine's own error.
  In the first two cases no exported function is called.
\<close>

theorem construction_checks_channels_then_rate:
  "(opt_channels (extend_opts opt) < 1 \<longrightarrow>
      (\<exists>msg. Encoder L opt w = (Inl (Error msg), w) \<and> Decoder L opt w = (Inl (Error msg), w)
         \<and> references ''channels'' msg))
   \<and> (1 \<le> opt_channels (extend_opts opt)
       \<and> (opt_rate (extend_opts opt) < 32000 \<or> 96000 < opt_rate (extend_opts opt)
          \<or> odd (opt_rate (extend_opts opt))) \<longrightarrow>
      (\<exists>msg. Encoder L opt w = (Inl (Error msg), w) \<and> Decoder L opt w = (Inl (Error msg), w)
         \<and> references ''rate'' msg))
   \<and> (1 \<le> opt_channels (extend_opts opt)
       \<and> 32000 \<le> opt_rate (extend_opts opt) \<and> opt_rate (extend_opts opt) \<le> 96000
       \<and> even (opt_rate (extend_opts opt)) \<longrightarrow>
      (\<exists>rest. calls (snd (Encoder L opt w)) =
          calls w @ malloc 4
            # celt_mode_create (opt_rate (extend_opts opt)) (opt_frameSize (extend_opts opt))
                (fst (invoke L (malloc 4) w))
            # rest)
      \<and> ((\<exists>s. fst (Encoder L opt w) = Inr s)
         \<or> (\<exists>w'. fst (Encoder L opt w) = Inl (Encoder_error L (fst (invoke L (malloc 4) w)) w')))
      \<and> (\<exists>rest. calls (snd (Decoder L opt w)) =
          calls w @ malloc 4
            # celt_mode_create (opt_rate (extend_opts opt)) (opt_frameSize (extend_opts opt))
                (fst (invoke L (malloc 4) w))
            # rest)
      \<and> ((\<exists>s. fst (Decoder L opt w) = Inr s)
         \<or> (\<exists>w'. fst (Decoder L opt w) = Inl (Decoder_error L (fst (invoke L (malloc 4) w)) w'))))"
proof (intro conjI impI)
  assume "opt_channels (extend_opts opt) < 1"
  then have "Encoder L opt w = (Inl (Error ''channels must be greater than 0''), w)"
    and "Decoder L opt w = (Inl (Error ''channels must be greater than 0''), w)"
    by (simp_all add: Encoder_channels Decoder_channels)
  then show "\<exists>msg. Encoder L opt w = (Inl (Error msg), w) \<and> Decoder L opt w = (Inl (Error msg), w)
      \<and> references ''channels'' msg"
    by simp
next
  assume a: "1 \<le> opt_channels (extend_opts opt)
    \<and> (opt_rate (extend_opts opt) < 32000 \<or> 96000 < opt_rate (extend_opts opt)
       \<or> odd (opt_rate (extend_opts opt)))"
  show "\<exists>msg. Encoder L opt w = (Inl (Error msg), w) \<and> Decoder L opt w = (Inl (Error msg), w)
      \<and> references ''rate'' msg"
  proof (cases "opt_rate (extend_opts opt) < 32000 \<or> 96000 < opt_rate (extend_opts opt)")
    case True
    with a have "Encoder L opt w = (Inl (Error ''rate must be in range 32000 - 96000''), w)"
      and "Decoder L opt w = (Inl (Error ''rate must be in range 32000 - 96000''), w)"
      by (auto simp: Encoder_def Decoder_def Let_def)
    then show ?thesis by simp
  next
    case False
    with a have "Encoder L opt w = (Inl (Error ''rate must be even''), w)"
      and "Decoder L opt w = (Inl (Error ''rate must be even''), w)"
      by (auto simp: Encoder_def Decoder_def Let_def js_rem_2)
    then show ?thesis by simp
  qed
next
  assume a: "1 \<le> opt_channels (extend_opts opt)
    \<and> 32000 \<le> opt_rate (extend_opts opt) \<and> opt_rate (extend_opts opt) \<le> 96000
    \<and> even (opt_rate (extend_opts opt))"
  then have v: "1 \<le> opt_channels (extend_opts opt)" "32000 \<le> opt_rate (extend_opts opt)"
    "opt_rate (extend_opts opt) \<le> 96000" "even (opt_rate (extend_opts opt))"
    by simp_all
  from Encoder_valid(1) [OF v, of L w]
  show "\<exists>rest. calls (snd (Encoder L opt w)) =
          calls w @ malloc 4
            # celt_mode_create (opt_rate (extend_opts opt)) (opt_frameSize (extend_opts opt))
                (fst (invoke L (malloc 4) w))
            # rest" .
  from Encoder_valid(2) [OF v, of L w]
  show "(\<exists>s. fst (Encoder L opt w) = Inr s)
       \<or> (\<exists>w'. fst (Encoder L opt w) = Inl (Encoder_error L (fst (invoke L (malloc 4) w)) w'))"
    by blast
  from Decoder_valid(1) [OF v, of L w]
  show "\<exists>rest. calls (snd (Decoder L opt w)) =
          calls w @ malloc 4
            # celt_mode_create (opt_rate (extend_opts opt)) (opt_frameSize (extend_opts opt))
                (fst (invoke L (malloc 4) w))
            # rest" .
  from Decoder_valid(2) [OF v, of L w]
  show "(\<exists>s. fst (Decoder L opt w) = Inr s)
       \<or> (\<exists>w'. fst (Decoder L opt w) = Inl (Decoder_error L (fst (invoke L (malloc 4) w)) w'))"
    by blast
qed

theorem construction_checks_channels_then_rate_witness:
  "(\<exists>msg. Encoder toy_lib (no_opts\<lparr>channels := Some 0\<rparr>) toy_world = (Inl (Error msg), toy_world)
      \<and> Decoder toy_lib (no_opts\<lparr>channels := Some 0\<rparr>) toy_world = (Inl (Error msg), toy_world)
      \<and> references ''channels'' msg)
   \<and> (\<exists>msg. Encoder toy_lib (no_opts\<lparr>rate := Some 48001\<rparr>) toy_world = (Inl (Error msg), toy_world)
      \<and> Decoder toy_lib (no_opts\<lparr>rate := Some 48001\<rparr>) toy_world = (Inl (Error msg), toy_world)
      \<and> references ''rate'' msg)
   \<and> (\<exists>rest. calls (snd (Encoder toy_lib (no_opts\<lparr>rate := Some 48002\<rparr>) toy_world)) =
        malloc 4 # celt_mode_create 48002 256 8 # rest)
   \<and> (\<exists>rest. calls (snd (Decoder toy_lib (no_opts\<lparr>rate := Some 48002\<rparr>) toy_world)) =
        malloc 4 # celt_mode_create 48002 256 8 # rest)"
proof -
  have c: "opt_channels (extend_opts (no_opts\<lparr>channels := Some 0\<rparr>)) < 1"
    by (simp add: extend_opts_def js_extend_def no_opts_def)
  have r: "1 \<le> opt_channels (extend_opts (no_opts\<lparr>rate := Some 48001\<rparr>))
    \<and> (opt_rate (extend_opts (no_opts\<lparr>rate := Some 48001\<rparr>)) < 32000
       \<or> 96000 < opt_rate (extend_opts (no_opts\<lparr>rate := Some 48001\<rparr>))
       \<or> odd (opt_rate (extend_opts (no_opts\<lparr>rate := Some 48001\<rparr>))))"
    by (simp add: extend_opts_def js_extend_def no_opts_def)
  have v: "1 \<le> opt_channels (extend_opts (no_opts\<lparr>rate := Some 48002\<rparr>))
    \<and> 32000 \<le> opt_rate (extend_opts (no_opts\<lparr>rate := Some 48002\<rparr>))
    \<and> opt_rate (extend_opts (no_opts\<lparr>rate := Some 48002\<rparr>)) \<le> 96000
    \<and> even (opt_rate (extend_opts (no_opts\<lparr>rate := Some 48002\<rparr>)))"
    by (simp add: extend_opts_def js_extend_def no_opts_def)
  note 1 = construction_checks_channels_then_rate
    [of "no_opts\<lparr>channels := Some 0\<rparr>" toy_lib toy_world, THEN conjunct1, THEN mp, OF c]
  note 2 = construction_checks_channels_then_rate
    [of "no_opts\<lparr>rate := Some 48001\<rparr>" toy_lib toy_world, THEN conjunct2, THEN conjunct1,
      THEN mp, OF r]
  note 3 = construction_checks_channels_then_rate
    [of "no_opts\<lparr>rate := Some 48002\<rparr>" toy_lib toy_world, THEN conjunct2, THEN conjunct2,
      THEN mp, OF v]
  from 3 have 4:
    "\<exists>rest. calls (snd (Encoder toy_lib (no_opts\<lparr>rate := Some 48002\<rparr>) toy_world)) =
        malloc 4 # celt_mode_create 48002 256 8 # rest"
    "\<exists>rest. calls (snd (Decoder toy_lib (no_opts\<lparr>rate := Some 48002\<rparr>) toy_world)) =
        malloc 4 # celt_mode_create 48002 256 8 # rest"
    by (simp_all add: extend_opts_def js_extend_def no_opts_def toy_world_def invoke_toy)
  from 1 2 4 show ?thesis by (intro conjI)
qed

text \<open>
  C4. For every encoder and every \<open>pcm\<close> whose length is not \<open>frameSize * channels\<close>
  (an empty frame included, an \<^verbatim>\<open>Int16Array\<close> as well as a \<^verbatim>\<open>Float32Array\<close>),
  \<^verbatim>\<open>encode\<close> throws the size error and the instance is as it was: no exported function
  has been called.
\<close>

theorem encode_rejects_wrong_length:
  "pcm_length p \<noteq> Some (enc_frameSize s * enc_channels s) \<Longrightarrow>
   Encoder_encode L G s p w =
     (Inl (Error ''frames must be exactly of size frameSize * channels''), w)"
  by (simp add: Encoder_encode_def)

theorem encode_rejects_wrong_length_witness:
  "Encoder_encode toy_lib None toy_encoder (Samples (Int16Array [])) toy_encoder_world =
     (Inl (Error ''frames must be exactly of size frameSize * channels''), toy_encoder_world)
   \<and> Encoder_encode toy_lib None toy_encoder (Samples (Float32Array (replicate 42 0)))
       toy_encoder_world =
     (Inl (Error ''frames must be exactly of size frameSize * channels''), toy_encoder_world)"
  using encode_rejects_wrong_length [of "Samples (Int16Array [])" toy_encoder toy_lib None
      toy_encoder_world]
    encode_rejects_wrong_length [of "Samples (Float32Array (replicate 42 0))" toy_encoder toy_lib
      None toy_encoder_world]
  by (simp add: toy_encoder_def)

text \<open>
  C5. For every decoder with non-negative \<open>frameSize\<close> and \<open>channels\<close>, decoding the loss
  signal (\<open>data = null\<close>) returns, when the engine's decode function reports success and the
  sample buffer it was given lies inside the heap, an \<^verbatim>\<open>Int16Array\<close> (from
  \<^verbatim>\<open>decodeInt16\<close>) or a \<^verbatim>\<open>Float32Array\<close> (from \<^verbatim>\<open>decodeFloat32\<close>) of exactly
  \<open>frameSize * channels\<close> samples, and no error. The engine is called with a null data
  pointer and length 0.
\<close>

theorem loss_signal_decodes_to_full_frame:
  assumes "0 \<le> dec_frameSize s" and "0 \<le> dec_channels s"
  shows "(invoke L (malloc (dec_frameSize s * 2 * dec_channels s)) w = (p16, w1)
          \<and> invoke L (celt_decode (dec_p s) 0 0 p16) w1 = (r16, w2) \<and> 0 \<le> r16
          \<and> 0 \<le> p16 \<and> p16 + dec_frameSize s * 2 * dec_channels s \<le> int (length (HEAPU8 w2))
          \<longrightarrow>
            (\<exists>a. Decoder_decodeInt16 L s Null w =
                    (Inr (Int16Array a), snd (invoke L (free p16) w2))
                 \<and> int (length a) = dec_frameSize s * dec_channels s))
         \<and> (invoke L (malloc (dec_frameSize s * 4 * dec_channels s)) w = (p32, v1)
          \<and> invoke L (celt_decode_float (dec_p s) 0 0 p32) v1 = (r32, v2) \<and> 0 \<le> r32
          \<and> 0 \<le> p32 \<and> p32 + dec_frameSize s * 4 * dec_channels s \<le> int (length (HEAPU8 v2))
          \<longrightarrow>
            (\<exists>a. Decoder_decodeFloat32 L s Null w =
                    (Inr (Float32Array a), snd (invoke L (free p32) v2))
                 \<and> int (length a) = dec_frameSize s * dec_channels s))"
proof (intro conjI impI)
  let ?n = "dec_frameSize s * dec_channels s"
  have n: "0 \<le> ?n" using assms by simp
  {
    assume a: "invoke L (malloc (dec_frameSize s * 2 * dec_channels s)) w = (p16, w1)
          \<and> invoke L (celt_decode (dec_p s) 0 0 p16) w1 = (r16, w2) \<and> 0 \<le> r16
          \<and> 0 \<le> p16 \<and> p16 + dec_frameSize s * 2 * dec_channels s \<le> int (length (HEAPU8 w2))"
    let ?buf = "HEAPU8_slice (HEAPU8 w2) p16 (p16 + dec_frameSize s * 2 * dec_channels s)"
    from a have d: "Decoder_decode L s Null 2 celt_decode w = (Inr ?buf, snd (invoke L (free p16) w2))"
      by (simp add: decode_Null)
    have "0 \<le> dec_frameSize s * 2 * dec_channels s" using n by (simp add: mult.commute mult.left_commute)
    with a have "int (length ?buf) = dec_frameSize s * 2 * dec_channels s"
      by (simp add: length_HEAPU8_slice)
    then have l: "length ?buf = 2 * nat ?n"
      using n by (simp add: nat_mult_distrib mult.commute mult.left_commute flip: nat_int)
    then have "new_Int16Array ?buf = Inr (Int16Array (int16_of_bytes ?buf))"
      by (simp add: new_Int16Array_def)
    moreover have "int (length (int16_of_bytes ?buf)) = ?n"
      using l n by (simp add: length_int16_of_bytes)
    ultimately show "\<exists>a. Decoder_decodeInt16 L s Null w =
                    (Inr (Int16Array a), snd (invoke L (free p16) w2))
                 \<and> int (length a) = dec_frameSize s * dec_channels s"
      using d by (simp add: Decoder_decodeInt16_def)
  }
  {
    assume a: "invoke L (malloc (dec_frameSize s * 4 * dec_channels s)) w = (p32, v1)
          \<and> invoke L (celt_decode_float (dec_p s) 0 0 p32) v1 = (r32, v2) \<and> 0 \<le> r32
          \<and> 0 \<le> p32 \<and> p32 + dec_frameSize s * 4 * dec_channels s \<le> int (length (HEAPU8 v2))"
    let ?buf = "HEAPU8_slice (HEAPU8 v2) p32 (p32 + dec_frameSize s * 4 * dec_channels s)"
    from a have d: "Decoder_decode L s Null 4 celt_decode_float w =
        (Inr ?buf, snd (invoke L (free p32) v2))"
      by (simp add: decode_Null)
    have "0 \<le> dec_frameSize s * 4 * dec_channels s" using n by (simp add: mult.commute mult.left_commute)
    with a have "int (length ?buf) = dec_frameSize s * 4 * dec_channels s"
      by (simp add: length_HEAPU8_slice)
    then have l: "length ?buf = 4 * nat ?n"
      using n by (simp add: nat_mult_distrib mult.commute mult.left_commute flip: nat_int)
    then have "new_Float32Array ?buf = Inr (Float32Array (float32_of_bytes ?buf))"
      by (simp add: new_Float32Array_def)
    moreover have "int (length (float32_of_bytes ?buf)) = ?n"
      using l n by (simp add: length_float32_of_bytes)
    ultimately show "\<exists>a. Decoder_decodeFloat32 L s Null w =
                    (Inr (Float32Array a), snd (invoke L (free p32) v2))
                 \<and> int (length a) = dec_frameSize s * dec_channels s"
      using d by (simp add: Decoder_decodeFloat32_def)
  }
qed

theorem loss_signal_decodes_to_full_frame_witness:
  "(\<exists>a w'. Decoder_decodeInt16 toy_lib toy_decoder Null toy_decoder_world = (Inr (Int16Array a), w')
      \<and> length a = 256
      \<and> calls w' = calls toy_decoder_world @ [malloc 512, celt_decode 32 0 0 40, free 40])
   \<and> (\<exists>a w'. Decoder_decodeFloat32 toy_lib toy_decoder Null toy_decoder_world =
        (Inr (Float32Array a), w')
      \<and> length a = 256
      \<and> calls w' = calls toy_decoder_world @ [malloc 1024, celt_decode_float 32 0 0 40, free 40])"
proof -
  let ?w1 = "\<lambda>n b. \<lparr>HEAPU8 = replicate 2048 0, engine = b,
    calls = calls toy_decoder_world @ [malloc n]\<rparr> :: int world"
  let ?w2 = "\<lambda>n b c. \<lparr>HEAPU8 = replicate 2048 0, engine = b,
    calls = calls toy_decoder_world @ [malloc n, c]\<rparr> :: int world"
  have s: "dec_frameSize toy_decoder = 256" "dec_channels toy_decoder = 1" "dec_p toy_decoder = 32"
    by (simp_all add: toy_decoder_def)
  have 1: "invoke toy_lib (malloc 512) toy_decoder_world = (40, ?w1 512 560)"
    "invoke toy_lib (malloc 1024) toy_decoder_world = (40, ?w1 1024 1072)"
    by (simp_all add: invoke_def toy_lib_def toy_decoder_world_def)
  have 2: "invoke toy_lib (celt_decode 32 0 0 40) (?w1 512 560) =
             (0, ?w2 512 560 (celt_decode 32 0 0 40))"
    "invoke toy_lib (celt_decode_float 32 0 0 40) (?w1 1024 1072) =
             (0, ?w2 1024 1072 (celt_decode_float 32 0 0 40))"
    by (simp_all add: invoke_def toy_lib_def)
  from loss_signal_decodes_to_full_frame [of toy_decoder toy_lib toy_decoder_world 40
      "?w1 512 560" 0 "?w2 512 560 (celt_decode 32 0 0 40)"
      40 "?w1 1024 1072" 0 "?w2 1024 1072 (celt_decode_float 32 0 0 40)"]
  show ?thesis
    using 1 2 by (auto simp: s calls_invoke)
qed







text \<open>
  C8. An encoder or decoder constructed with \<open>unsafe\<close> false (the default) has a
  \<^verbatim>\<open>destroy\<close> that does nothing: it returns without an error and the instance, with its
  mode and coder, is as it was, no exported function having been called.
\<close>

theorem destroy_without_unsafe_is_noop:
  "(Encoder L opt w0 = (Inr s, w1) \<and> \<not> opt_unsafe (extend_opts opt)
      \<longrightarrow> Encoder_destroy L s w = (Inr (), w))
   \<and> (Decoder L opt w0 = (Inr d, w2) \<and> \<not> opt_unsafe (extend_opts opt)
      \<longrightarrow> Decoder_destroy L d w = (Inr (), w))"
  by (auto simp: Encoder_destroy_def Decoder_destroy_def dest: Encoder_unsafe Decoder_unsafe)

theorem destroy_without_unsafe_is_noop_witness:
  "Encoder toy_lib no_opts toy_world = (Inr toy_encoder, toy_encoder_world)
   \<and> Decoder toy_lib no_opts toy_world = (Inr toy_decoder, toy_decoder_world)
   \<and> \<not> opt_unsafe (extend_opts no_opts)
   \<and> Encoder_destroy toy_lib toy_encoder toy_encoder_world = (Inr (), toy_encoder_world)
   \<and> Decoder_destroy toy_lib toy_decoder toy_decoder_world = (Inr (), toy_decoder_world)"
proof -
  have safe: "\<not> opt_unsafe (extend_opts no_opts)"
    by (simp add: extend_opts_def js_extend_def no_opts_def)
  from destroy_without_unsafe_is_noop [of toy_lib no_opts toy_world toy_encoder toy_encoder_world
      toy_encoder_world toy_decoder toy_decoder_world]
  have "Encoder_destroy toy_lib toy_encoder toy_encoder_world = (Inr (), toy_encoder_world)"
    using safe toy_Encoder by blast
  moreover
  from destroy_without_unsafe_is_noop [of toy_lib no_opts toy_world toy_encoder toy_encoder_world
      toy_decoder_world toy_decoder toy_decoder_world]
  have "Decoder_destroy toy_lib toy_decoder toy_decoder_world = (Inr (), toy_decoder_world)"
    using safe toy_Decoder by blast
  ultimately show ?thesis
    using safe toy_Encoder toy_Decoder by simp
qed

text \<open>
  C9. For every \<open>data\<close> that is neither null nor a Buffer, \<^verbatim>\<open>decodeInt16\<close> and
  \<^verbatim>\<open>decodeFloat32\<close> throw the TypeError \<open>data must be Buffer or null\<close>; the only exported
  functions called are the allocation of the sample buffer and its release, so neither decode
  function of the engine runs and the buffer is freed.
\<close>

theorem decode_rejects_other_data:
  assumes "data \<noteq> Null" and "\<not> instanceof_Buffer data"
  shows "(invoke L (malloc (dec_frameSize s * 2 * dec_channels s)) w = (p16, w16) \<longrightarrow>
            Decoder_decodeInt16 L s data w =
              (Inl (TypeError ''data must be Buffer or null''), snd (invoke L (free p16) w16))
            \<and> calls (snd (Decoder_decodeInt16 L s data w)) =
                calls w @ [malloc (dec_frameSize s * 2 * dec_channels s), free p16])
         \<and> (invoke L (malloc (dec_frameSize s * 4 * dec_channels s)) w = (p32, w32) \<longrightarrow>
            Decoder_decodeFloat32 L s data w =
              (Inl (TypeError ''data must be Buffer or null''), snd (invoke L (free p32) w32))
            \<and> calls (snd (Decoder_decodeFloat32 L s data w)) =
                calls w @ [malloc (dec_frameSize s * 4 * dec_channels s), free p32])"
  using assms
  by (auto simp: Decoder_decodeInt16_def Decoder_decodeFloat32_def decode_TypeError calls_invoke
      dest!: invoke_calls)

theorem decode_rejects_other_data_witness:
  "fst (Decoder_decodeInt16 toy_lib toy_decoder (Number 3) toy_decoder_world) =
     Inl (TypeError ''data must be Buffer or null'')
   \<and> calls (snd (Decoder_decodeInt16 toy_lib toy_decoder (Number 3) toy_decoder_world)) =
       calls toy_decoder_world @ [malloc 512, free 40]
   \<and> fst (Decoder_decodeFloat32 toy_lib toy_decoder (Number 3) toy_decoder_world) =
     Inl (TypeError ''data must be Buffer or null'')
   \<and> calls (snd (Decoder_decodeFloat32 toy_lib toy_decoder (Number 3) toy_decoder_world)) =
       calls toy_decoder_world @ [malloc 1024, free 40]"
  using decode_rejects_other_data [of "Number 3" toy_lib toy_decoder toy_decoder_world 40
      "toy_decoder_world\<lparr>engine := 560, calls := calls toy_decoder_world @ [malloc 512]\<rparr>" 40
      "toy_decoder_world\<lparr>engine := 1072, calls := calls toy_decoder_world @ [malloc 1024]\<rparr>"]
  by (simp add: toy_decoder_def toy_decoder_world_def invoke_def toy_lib_def)

text \<open>
  C10. The constructors do not look at \<open>frameSize\<close>: for every value of it (zero, negative
  or outside 64..512 included), with \<open>channels \<ge> 1\<close> and an even rate in range, the first
  exported functions called are the allocation of the error code and mode creation with that
  very value, and the constructor returns a session or the engine's own error.
\<close>

theorem frameSize_reaches_mode_create_unchecked:
  assumes "frameSize opt = Some fs"
    and "1 \<le> opt_channels (extend_opts opt)"
    and "32000 \<le> opt_rate (extend_opts opt)" and "opt_rate (extend_opts opt) \<le> 96000"
    and "even (opt_rate (extend_opts opt))"
  shows "(\<exists>rest. calls (snd (Encoder L opt w)) =
            calls w @ malloc 4
              # celt_mode_create (opt_rate (extend_opts opt)) fs (fst (invoke L (malloc 4) w)) # rest)
         \<and> ((\<exists>s. fst (Encoder L opt w) = Inr s \<and> enc_frameSize s = fs)
            \<or> (\<exists>w'. fst (Encoder L opt w) = Inl (Encoder_error L (fst (invoke L (malloc 4) w)) w')))
         \<and> (\<exists>rest. calls (snd (Decoder L opt w)) =
            calls w @ malloc 4
              # celt_mode_create (opt_rate (extend_opts opt)) fs (fst (invoke L (malloc 4) w)) # rest)
         \<and> ((\<exists>s. fst (Decoder L opt w) = Inr s \<and> dec_frameSize s = fs)
            \<or> (\<exists>w'. fst (Decoder L opt w) = Inl (Decoder_error L (fst (invoke L (malloc 4) w)) w')))"
proof -
  have fs: "opt_frameSize (extend_opts opt) = fs"
    using assms(1) by (simp add: extend_opts_def js_extend_def)
  from Encoder_valid [OF assms(2-5), of L w] Decoder_valid [OF assms(2-5), of L w]
  show ?thesis
    unfolding fs by (intro conjI)
qed

theorem frameSize_reaches_mode_create_unchecked_witness:
  "calls (snd (Encoder toy_lib (no_opts\<lparr>frameSize := Some (- 5)\<rparr>) toy_world)) =
     [malloc 4, celt_mode_create 48000 (- 5) 8, free 8]
   \<and> fst (Encoder toy_lib (no_opts\<lparr>frameSize := Some (- 5)\<rparr>) toy_world) = Inl (Error ''Invalid argument'')
   \<and> (\<exists>rest. calls (snd (Decoder toy_lib (no_opts\<lparr>frameSize := Some 0\<rparr>) toy_world)) =
        malloc 4 # celt_mode_create 48000 0 8 # rest)"
proof -
  have "calls (snd (Encoder toy_lib (no_opts\<lparr>frameSize := Some (- 5)\<rparr>) toy_world)) =
     [malloc 4, celt_mode_create 48000 (- 5) 8, free 8]
   \<and> fst (Encoder toy_lib (no_opts\<lparr>frameSize := Some (- 5)\<rparr>) toy_world) = Inl (Error ''Invalid argument'')"
    by (simp add: Encoder_def Encoder_error_def extend_opts_def js_extend_def no_opts_def
        toy_world_def invoke_toy js_rem_def smod_int_alt_def poke_toy stringifyError_toy)
  moreover
  have "\<exists>rest. calls (snd (Decoder toy_lib (no_opts\<lparr>frameSize := Some 0\<rparr>) toy_world)) =
        malloc 4 # celt_mode_create 48000 0 8 # rest"
    using frameSize_reaches_mode_create_unchecked [of "no_opts\<lparr>frameSize := Some 0\<rparr>" 0 toy_lib
        toy_world]
    by (simp add: extend_opts_def js_extend_def no_opts_def toy_world_def invoke_def toy_lib_def)
  ultimately show ?thesis by simp
qed

end
